theory Spec2Isabelle
  imports Complex_Main
begin

section \<open>Python values, exceptions and the runtime\<close>

text \<open>
  The value \<open>json.loads\<close> returns for one line of the upstream body. A dict is the
  list of its items in insertion order (Python dicts have distinct keys). Python ints are
  unbounded; a Python float is carried as a real number, its rounding is not modelled
  (infinities and NaN are outside the model). Strings are byte lists holding UTF-8.
\<close>

datatype json =
    JNull
  | JBool bool
  | JInt int
  | JFloat real
  | JStr string
  | JArr "json list"
  | JObj "(string \<times> json) list"

text \<open>
  The exception classes that matter in \<open>handle_export\<close>. The string of the first three
  is \<open>str(exc)\<close>; \<open>KeyError\<close> carries the missing key. \<open>OtherError\<close> stands for
  every class outside the \<open>except\<close> clause that the HTTP client may raise.
\<close>

datatype exn =
    ClientError string
  | JSONDecodeError string
  | ValueError string
  | KeyError string
  | TypeError
  | AttributeError
  | OtherError string

text \<open>
  What the code takes from the Python runtime and the standard library and does not
  define itself: \<open>float(s)\<close> (\<open>Inl\<close> the message of its ValueError), \<open>str\<close> of a
  float, \<open>json.loads\<close> (\<open>Inl\<close> the message of its JSONDecodeError) and \<open>str\<close> of a
  list or dict.
\<close>

record runtime =
  py_float :: "string \<Rightarrow> string + real"
  float_str :: "real \<Rightarrow> string"
  loads :: "string \<Rightarrow> string + json"
  container_str :: "json \<Rightarrow> string"

fun str_nat :: "nat \<Rightarrow> string" where
  "str_nat n =
     (if n < 10 then [''0123456789'' ! n]
      else str_nat (n div 10) @ [''0123456789'' ! (n mod 10)])"

definition str_int :: "int \<Rightarrow> string" where
  "str_int i = (if i < 0 then ''-'' @ str_nat (nat (- i)) else str_nat (nat i))"

text \<open>\<open>str(v)\<close>, which is what an f-string field \<open>{v}\<close> renders.\<close>

definition py_str :: "runtime \<Rightarrow> json \<Rightarrow> string" where
  "py_str rt v =
     (case v of
        JNull \<Rightarrow> ''None''
      | JBool b \<Rightarrow> (if b then ''True'' else ''False'')
      | JInt i \<Rightarrow> str_int i
      | JFloat x \<Rightarrow> float_str rt x
      | JStr s \<Rightarrow> s
      | JArr xs \<Rightarrow> container_str rt v
      | JObj kvs \<Rightarrow> container_str rt v)"

text \<open>\<open>obj[key]\<close> with a string key: only a dict can answer, and only for a key it has.\<close>

definition py_getitem :: "json \<Rightarrow> string \<Rightarrow> exn + json" where
  "py_getitem obj key =
     (case obj of
        JObj kvs \<Rightarrow> (case map_of kvs key of None \<Rightarrow> Inl (KeyError key) | Some v \<Rightarrow> Inr v)
      | _ \<Rightarrow> Inl TypeError)"

text \<open>
  \<open>obj.pop(key)\<close> with a string key: the value and the items that remain. A list has a
  \<open>pop\<close> that refuses a string index; the other values have no \<open>pop\<close> at all.
\<close>

definition py_pop :: "json \<Rightarrow> string \<Rightarrow> exn + (json \<times> (string \<times> json) list)" where
  "py_pop obj key =
     (case obj of
        JObj kvs \<Rightarrow>
          (case map_of kvs key of
             None \<Rightarrow> Inl (KeyError key)
           | Some v \<Rightarrow> Inr (v, filter (\<lambda>kv. fst kv \<noteq> key) kvs))
      | JArr xs \<Rightarrow> Inl TypeError
      | _ \<Rightarrow> Inl AttributeError)"

text \<open>The code points of a UTF-8 string: a lead byte with its continuation bytes.\<close>

definition is_cont :: "char \<Rightarrow> bool" where
  "is_cont c = ((of_char c :: nat) div 64 = 2)"

function codepoints :: "string \<Rightarrow> string list" where
  "codepoints [] = []"
| "codepoints (c # cs) = (c # takeWhile is_cont cs) # codepoints (dropWhile is_cont cs)"
  by pat_completeness auto
termination
  by (relation "measure length") (auto simp: length_dropWhile_le less_Suc_eq_le)

text \<open>
  What \<open>zip\<close> iterates over: the elements of a list, the characters of a string, the
  keys of a dict; the other values are not iterable.
\<close>

definition py_iter :: "json \<Rightarrow> exn + json list" where
  "py_iter v =
     (case v of
        JArr xs \<Rightarrow> Inr xs
      | JStr s \<Rightarrow> Inr (map JStr (codepoints s))
      | JObj kvs \<Rightarrow> Inr (map (\<lambda>kv. JStr (fst kv)) kvs)
      | _ \<Rightarrow> Inl TypeError)"

text \<open>\<open>sep.join(xs)\<close>.\<close>

fun join :: "string \<Rightarrow> string list \<Rightarrow> string" where
  "join sep [] = []"
| "join sep [x] = x"
| "join sep (x # y # ys) = x @ sep @ join sep (y # ys)"

text \<open>
  \<open>str.splitlines()\<close>: a line ends at LF, CR, CR LF, VT, FF, FS, GS, RS, NEL (U+0085),
  LS (U+2028) or PS (U+2029); the line ends are dropped, and no empty line follows the
  last one. \<open>cur\<close> is the current line, reversed.
\<close>

definition is_break :: "char \<Rightarrow> bool" where
  "is_break c = (c \<in> set [CHR 0x0A, CHR 0x0B, CHR 0x0C, CHR 0x1C, CHR 0x1D, CHR 0x1E])"

fun splitlines_from :: "string \<Rightarrow> string \<Rightarrow> string list" where
  "splitlines_from cur [] = (if cur = [] then [] else [rev cur])"
| "splitlines_from cur (c # cs) =
     (if c = CHR 0x0D then
        (case cs of
           d # ds \<Rightarrow>
             (if d = CHR 0x0A then rev cur # splitlines_from [] ds
              else rev cur # splitlines_from [] cs)
         | [] \<Rightarrow> rev cur # splitlines_from [] cs)
      else if is_break c then rev cur # splitlines_from [] cs
      else if c = CHR 0xC2 \<and> take 1 cs = [CHR 0x85] then
        rev cur # splitlines_from [] (drop 1 cs)
      else if c = CHR 0xE2 \<and> (take 2 cs = [CHR 0x80, CHR 0xA8] \<or> take 2 cs = [CHR 0x80, CHR 0xA9])
      then rev cur # splitlines_from [] (drop 2 cs)
      else splitlines_from (c # cur) cs)"

definition splitlines :: "string \<Rightarrow> string list" where
  "splitlines s = splitlines_from [] s"

section \<open>The query translator\<close>

text \<open>
  The truthiness test \<open>if value:\<close> on a \<open>str | None\<close> followed by
  \<open>url = f"{url}name={value}&"\<close>: \<open>None\<close> and the empty string add nothing.
\<close>

fun add_param :: "string \<Rightarrow> string \<Rightarrow> string option \<Rightarrow> string" where
  "add_param url name None = url"
| "add_param url name (Some v) = (if v = [] then url else url @ name @ ''='' @ v @ ''&'')"

text \<open>The default series selector, \<open>{__name__!=''}\<close> (two apostrophes).\<close>

definition default_match :: string where
  "default_match = ''{__name__!='' @ [CHR 0x27, CHR 0x27] @ ''}''"

text \<open>
  \<open>make_url\<close>. The query is aiohttp's multi-mapping: the list of its (key, value) pairs,
  where \<open>key in query\<close> asks for any pair and \<open>query[key]\<close> and \<open>query.get(key)\<close>
  answer the first one. \<open>now\<close> is what \<open>time()\<close> returns.
\<close>

definition make_url :: "runtime \<Rightarrow> real \<Rightarrow> (string \<times> string) list \<Rightarrow> exn + string" where
  "make_url rt now query =
     (let url = ''/api/v1/export?'' in
      case (case map_of query ''last'' of
              Some l \<Rightarrow>
                (case py_float rt l of
                   Inl msg \<Rightarrow> Inl (ValueError msg)
                 | Inr x \<Rightarrow> Inr (Some (float_str rt (now - x))))
            | None \<Rightarrow> Inr (map_of query ''start'')) of
        Inl e \<Rightarrow> Inl e
      | Inr start \<Rightarrow>
          (let end_value = map_of query ''end'';
               url = add_param url ''start'' start;
               url = add_param url ''end'' end_value
           in case map_of query ''match[]'' of
                Some m \<Rightarrow> Inr (url @ ''match[]='' @ m)
              | None \<Rightarrow> Inr (url @ ''match[]='' @ default_match)))"

section \<open>The record converter\<close>

text \<open>One label of the label set, \<open>f'{k}="{v}"'\<close>.\<close>

definition label_pair :: "runtime \<Rightarrow> string \<times> json \<Rightarrow> string" where
  "label_pair rt kv = fst kv @ ''=\"'' @ py_str rt (snd kv) @ ''\"''"

text \<open>
  One exposition line,
  \<open>f"{metric_name}{{{labels}}} {value if value is not None else 0} {timestamp}\n"\<close>.
\<close>

definition sample_line :: "runtime \<Rightarrow> json \<Rightarrow> (string \<times> json) list \<Rightarrow> json \<Rightarrow> json \<Rightarrow> string" where
  "sample_line rt metric_name metric v timestamp =
     (let labels = join '','' (map (label_pair rt) metric)
      in py_str rt metric_name @ ''{'' @ labels @ ''} ''
         @ py_str rt (if v = JNull then JInt 0 else v) @ '' ''
         @ py_str rt timestamp @ [CHR 0x0A])"

text \<open>The lines one record contributes: one per pair of \<open>zip(values, timestamps)\<close>.\<close>

definition sample_lines :: "runtime \<Rightarrow> json \<Rightarrow> (string \<times> json) list \<Rightarrow> json list \<Rightarrow> json list \<Rightarrow> string list" where
  "sample_lines rt metric_name metric vs ts =
     map (\<lambda>p. sample_line rt metric_name metric (fst p) (snd p)) (zip vs ts)"

text \<open>
  The body of the loop over the lines, after \<open>loads\<close>: the three subscriptions, the
  \<open>pop\<close>, and the inner loop; the text it appends to \<open>body\<close>.
\<close>

definition render_record :: "runtime \<Rightarrow> json \<Rightarrow> exn + string" where
  "render_record rt json_metric =
     (case py_getitem json_metric ''metric'' of
        Inl e \<Rightarrow> Inl e
      | Inr metric \<Rightarrow>
     (case py_getitem json_metric ''values'' of
        Inl e \<Rightarrow> Inl e
      | Inr values \<Rightarrow>
     (case py_getitem json_metric ''timestamps'' of
        Inl e \<Rightarrow> Inl e
      | Inr timestamps \<Rightarrow>
     (case py_pop metric ''__name__'' of
        Inl e \<Rightarrow> Inl e
      | Inr (metric_name, rest) \<Rightarrow>
     (case py_iter values of
        Inl e \<Rightarrow> Inl e
      | Inr vs \<Rightarrow>
     (case py_iter timestamps of
        Inl e \<Rightarrow> Inl e
      | Inr ts \<Rightarrow> Inr (concat (sample_lines rt metric_name rest vs ts))))))))"

text \<open>The loop over the lines: \<open>body\<close> grows; the first exception ends it.\<close>

fun export_lines :: "runtime \<Rightarrow> string \<Rightarrow> string list \<Rightarrow> exn + string" where
  "export_lines rt body [] = Inr body"
| "export_lines rt body (line # lines) =
     (case loads rt line of
        Inl msg \<Rightarrow> Inl (JSONDecodeError msg)
      | Inr json_metric \<Rightarrow>
          (case render_record rt json_metric of
             Inl e \<Rightarrow> Inl e
           | Inr text \<Rightarrow> export_lines rt (body @ text) lines))"

section \<open>The export handler\<close>

record request =
  query :: "(string \<times> string) list"
  headers :: "(string \<times> string) list"

record response =
  status :: nat
  body :: string
  content_type :: string

text \<open>
  What one request meets outside the process: the upstream store's answer to the GET
  (the response text, or the exception the HTTP client raises), and the three readings
  of \<open>time()\<close>: at line 130, inside \<open>make_url\<close>, and at line 165.
\<close>

record world =
  http_get :: "string \<Rightarrow> (string \<times> string) list \<Rightarrow> string \<Rightarrow> exn + string"
  time_start :: real
  time_query :: real
  time_end :: real

text \<open>
  The process-wide instruments, each keyed by the target label, and the log of the
  upstream GETs attempted (base URL and path).
\<close>

record metrics =
  DURATION_METRIC :: "string \<Rightarrow> real option"
  EXPORT_COUNT :: "string \<Rightarrow> nat"
  EXPORT_FAILS :: "string \<Rightarrow> nat"
  EXPORT_LINES :: "string \<Rightarrow> nat"
  upstream_gets :: "(string \<times> string) list"

text \<open>
  A handler returns a response or lets an exception escape (the web framework then
  answers 500).
\<close>

datatype outcome = Returned response | Raised exn

text \<open>The \<open>try\<close> block: the GET, \<open>splitlines\<close>, and the loop.\<close>

definition try_block :: "runtime \<Rightarrow> world \<Rightarrow> string \<Rightarrow> (string \<times> string) list \<Rightarrow> string \<Rightarrow> exn + (string \<times> string list)" where
  "try_block rt w target hdrs url =
     (case http_get w target hdrs url of
        Inl e \<Rightarrow> Inl e
      | Inr text \<Rightarrow>
          (let lines = splitlines text
           in case export_lines rt [] lines of
                Inl e \<Rightarrow> Inl e
              | Inr rendered \<Rightarrow> Inr (rendered, lines)))"

text \<open>The \<open>except (ClientError, JSONDecodeError, ValueError) as exc\<close> handler.\<close>

definition export_failed :: "string \<Rightarrow> string \<Rightarrow> metrics \<Rightarrow> outcome \<times> metrics" where
  "export_failed target msg st =
     (Returned \<lparr>status = 400, body = msg, content_type = ''text/plain''\<rparr>,
      st\<lparr>EXPORT_FAILS := (EXPORT_FAILS st)(target := EXPORT_FAILS st target + 1)\<rparr>)"

definition handle_export :: "runtime \<Rightarrow> world \<Rightarrow> request \<Rightarrow> metrics \<Rightarrow> outcome \<times> metrics" where
  "handle_export rt w request st =
     (case map_of (query request) ''target'' of
        None \<Rightarrow>
          (Returned \<lparr>status = 400, body = ''Missing 'target' query field'',
                     content_type = ''text/plain''\<rparr>, st)
      | Some target \<Rightarrow>
          (let export_start = time_start w
           in case make_url rt (time_query w) (query request) of
                Inl e \<Rightarrow> (Raised e, st)
              | Inr url \<Rightarrow>
                  (let st = st\<lparr>upstream_gets := upstream_gets st @ [(target, url)]\<rparr>
                   in case try_block rt w target (headers request) url of
                        Inl (ClientError msg) \<Rightarrow> export_failed target msg st
                      | Inl (JSONDecodeError msg) \<Rightarrow> export_failed target msg st
                      | Inl (ValueError msg) \<Rightarrow> export_failed target msg st
                      | Inl e \<Rightarrow> (Raised e, st)
                      | Inr (rendered, lines) \<Rightarrow>
                          (let export_duration = time_end w - export_start
                           in (Returned \<lparr>status = 200, body = rendered, content_type = ''text/plain''\<rparr>,
                               st\<lparr>DURATION_METRIC := (DURATION_METRIC st)(target \<mapsto> export_duration),
                                  EXPORT_COUNT := (EXPORT_COUNT st)(target := EXPORT_COUNT st target + 1),
                                  EXPORT_LINES := (EXPORT_LINES st)(target := EXPORT_LINES st target + length lines)\<rparr>)))))"

section \<open>Example inputs\<close>

text \<open>
  A runtime for evaluating the handler on the example requests below. It answers as
  Python does on the strings and numbers those examples use and is not meant beyond
  them: \<open>float\<close> knows unsigned decimal integers, \<open>str\<close> of a float knows integral
  values, \<open>loads\<close> knows the three record lines below and rejects every other line as
  \<open>loads("not json")\<close> does, and \<open>str\<close> of a container knows the empty list and the
  empty dict.
\<close>

definition digits_value :: "string \<Rightarrow> nat" where
  "digits_value s = foldl (\<lambda>n c. 10 * n + (of_char c - 48)) 0 s"

definition sample_float :: "string \<Rightarrow> string + real" where
  "sample_float s =
     (if s \<noteq> [] \<and> list_all (\<lambda>c. c \<in> set ''0123456789'') s then Inr (real (digits_value s))
      else Inl (''could not convert string to float: '' @ [CHR 0x27] @ s @ [CHR 0x27]))"

definition sample_float_str :: "real \<Rightarrow> string" where
  "sample_float_str x = str_int \<lfloor>x\<rfloor> @ ''.0''"

definition line_up :: string where
  "line_up = ''{\"metric\":{\"__name__\":\"up\",\"job\":\"x\"},\"values\":[1,null],\"timestamps\":[100,200]}''"

definition record_up :: json where
  "record_up =
     JObj [(''metric'', JObj [(''__name__'', JStr ''up''), (''job'', JStr ''x'')]),
           (''values'', JArr [JInt 1, JNull]),
           (''timestamps'', JArr [JInt 100, JInt 200])]"

definition line_no_metric :: string where
  "line_no_metric = ''{\"values\":[1],\"timestamps\":[100]}''"

definition record_no_metric :: json where
  "record_no_metric = JObj [(''values'', JArr [JInt 1]), (''timestamps'', JArr [JInt 100])]"

definition line_uneven :: string where
  "line_uneven = ''{\"metric\":{\"__name__\":\"up\"},\"values\":[1,2,3],\"timestamps\":[100]}''"

definition record_uneven :: json where
  "record_uneven =
     JObj [(''metric'', JObj [(''__name__'', JStr ''up'')]),
           (''values'', JArr [JInt 1, JInt 2, JInt 3]),
           (''timestamps'', JArr [JInt 100])]"

definition sample_loads :: "string \<Rightarrow> string + json" where
  "sample_loads s =
     (if s = line_up then Inr record_up
      else if s = line_no_metric then Inr record_no_metric
      else if s = line_uneven then Inr record_uneven
      else Inl ''Expecting value: line 1 column 1 (char 0)'')"

definition sample_runtime :: runtime where
  "sample_runtime =
     \<lparr>py_float = sample_float, float_str = sample_float_str, loads = sample_loads,
      container_str = (\<lambda>v. case v of JObj kvs \<Rightarrow> ''{}'' | _ \<Rightarrow> ''[]'')\<rparr>"

text \<open>A world whose upstream store gives one fixed answer, with the two clock readings.\<close>

definition sample_world :: "exn + string \<Rightarrow> real \<Rightarrow> real \<Rightarrow> world" where
  "sample_world reply t0 t1 =
     \<lparr>http_get = (\<lambda>target hdrs url. reply), time_start = t0, time_query = t0, time_end = t1\<rparr>"

definition sample_request :: "(string \<times> string) list \<Rightarrow> request" where
  "sample_request q = \<lparr>query = q, headers = []\<rparr>"

text \<open>The instruments of a process that has served nothing yet.\<close>

definition fresh_metrics :: metrics where
  "fresh_metrics =
     \<lparr>DURATION_METRIC = (\<lambda>t. None), EXPORT_COUNT = (\<lambda>t. 0), EXPORT_FAILS = (\<lambda>t. 0),
      EXPORT_LINES = (\<lambda>t. 0), upstream_gets = []\<rparr>"

section \<open>Facts about the helpers\<close>

lemma map_of_remove_key:
  "map_of (filter (\<lambda>kv. fst kv \<noteq> k) q) k' = (if k' = k then None else map_of q k')"
  by (induction q) auto

lemma map_of_first_pair:
  "k \<notin> fst ` set pre \<Longrightarrow> map_of (pre @ (k, v) # post) k = Some v"
  by (induction pre) auto

lemma export_lines_append:
  "export_lines rt b (pre @ rest) =
     (case export_lines rt b pre of Inl e \<Rightarrow> Inl e | Inr b' \<Rightarrow> export_lines rt b' rest)"
  by (induction pre arbitrary: b) (auto split: sum.splits)

lemma make_url_no_last:
  "map_of q ''last'' = None \<Longrightarrow>
   make_url rt now q =
     Inr (''/api/v1/export?'' @ add_param [] ''start'' (map_of q ''start'')
          @ add_param [] ''end'' (map_of q ''end'') @ ''match[]=''
          @ (case map_of q ''match[]'' of None \<Rightarrow> default_match | Some m \<Rightarrow> m))"
  by (cases "map_of q ''start''"; cases "map_of q ''end''"; cases "map_of q ''match[]''")
     (simp_all add: make_url_def)

lemma make_url_last_ok:
  "map_of q ''last'' = Some L \<Longrightarrow> py_float rt L = Inr x \<Longrightarrow>
   make_url rt now q =
     Inr (''/api/v1/export?'' @ add_param [] ''start'' (Some (float_str rt (now - x)))
          @ add_param [] ''end'' (map_of q ''end'') @ ''match[]=''
          @ (case map_of q ''match[]'' of None \<Rightarrow> default_match | Some m \<Rightarrow> m))"
  by (cases "map_of q ''end''"; cases "map_of q ''match[]''") (simp_all add: make_url_def)

lemma make_url_last_bad:
  "map_of q ''last'' = Some L \<Longrightarrow> py_float rt L = Inl msg \<Longrightarrow>
   make_url rt now q = Inl (ValueError msg)"
  by (simp add: make_url_def)

lemma add_param_shape:
  "add_param [] name v = [] \<or> (\<exists>x. add_param [] name v = name @ ''='' @ x @ ''&'')"
  by (cases v) auto

lemma map_of_filter_keys:
  "map_of (filter (\<lambda>kv. P (fst kv)) q) k = (if P k then map_of q k else None)"
  by (induction q) auto




lemma py_getitem_missing:
  "k \<notin> fst ` set kvs \<Longrightarrow> py_getitem (JObj kvs) k = Inl (KeyError k)"
  by (simp add: py_getitem_def map_of_eq_None_iff [symmetric])

lemma py_getitem_present:
  "k \<in> fst ` set kvs \<Longrightarrow> \<exists>v. py_getitem (JObj kvs) k = Inr v"
  by (cases "map_of kvs k") (auto simp: py_getitem_def map_of_eq_None_iff)

lemma py_pop_missing:
  "k \<notin> fst ` set kvs \<Longrightarrow> py_pop (JObj kvs) k = Inl (KeyError k)"
  by (simp add: py_pop_def map_of_eq_None_iff [symmetric])

lemma render_record_no_metric:
  "''metric'' \<notin> fst ` set rec \<Longrightarrow> render_record rt (JObj rec) = Inl (KeyError ''metric'')"
  by (simp add: render_record_def py_getitem_missing)

lemma render_record_no_values:
  assumes "''metric'' \<in> fst ` set rec" and "''values'' \<notin> fst ` set rec"
  shows "render_record rt (JObj rec) = Inl (KeyError ''values'')"
proof -
  from py_getitem_present [OF assms(1)]
  obtain v where "py_getitem (JObj rec) ''metric'' = Inr v" ..
  with assms(2) show ?thesis by (simp add: render_record_def py_getitem_missing)
qed

lemma render_record_no_timestamps:
  assumes "''metric'' \<in> fst ` set rec" and "''values'' \<in> fst ` set rec"
      and "''timestamps'' \<notin> fst ` set rec"
  shows "render_record rt (JObj rec) = Inl (KeyError ''timestamps'')"
proof -
  from py_getitem_present [OF assms(1)]
  obtain v where v: "py_getitem (JObj rec) ''metric'' = Inr v" ..
  from py_getitem_present [OF assms(2)]
  obtain v' where "py_getitem (JObj rec) ''values'' = Inr v'" ..
  with v assms(3) show ?thesis by (simp add: render_record_def py_getitem_missing)
qed

lemma render_record_no_name:
  assumes "''values'' \<in> fst ` set rec" and "''timestamps'' \<in> fst ` set rec"
      and "map_of rec ''metric'' = Some (JObj m)" and "''__name__'' \<notin> fst ` set m"
  shows "render_record rt (JObj rec) = Inl (KeyError ''__name__'')"
proof -
  from assms(3) have v: "py_getitem (JObj rec) ''metric'' = Inr (JObj m)"
    by (simp add: py_getitem_def)
  from py_getitem_present [OF assms(1)]
  obtain v' where v': "py_getitem (JObj rec) ''values'' = Inr v'" ..
  from py_getitem_present [OF assms(2)]
  obtain v'' where "py_getitem (JObj rec) ''timestamps'' = Inr v''" ..
  with v v' assms(4) show ?thesis by (simp add: render_record_def py_pop_missing)
qed

lemma render_record_missing:
  assumes "missing = ''metric'' \<and> ''metric'' \<notin> fst ` set rec
         \<or> missing = ''values'' \<and> ''metric'' \<in> fst ` set rec \<and> ''values'' \<notin> fst ` set rec
         \<or> missing = ''timestamps'' \<and> ''metric'' \<in> fst ` set rec \<and> ''values'' \<in> fst ` set rec
             \<and> ''timestamps'' \<notin> fst ` set rec
         \<or> missing = ''__name__'' \<and> ''values'' \<in> fst ` set rec \<and> ''timestamps'' \<in> fst ` set rec
             \<and> (\<exists>m. map_of rec ''metric'' = Some (JObj m) \<and> ''__name__'' \<notin> fst ` set m)"
  shows "render_record rt (JObj rec) = Inl (KeyError missing)"
  using assms
  apply (elim disjE conjE exE)
     apply (erule ssubst, erule render_record_no_metric)
    apply (erule ssubst, erule (1) render_record_no_values)
   apply (erule ssubst, erule (2) render_record_no_timestamps)
  apply (erule ssubst, erule (3) render_record_no_name)
  done

section \<open>A request without a target\<close>

text \<open>
  C8. A request whose query has no \<open>target\<close> parameter is answered 400 with the body
  "Missing 'target' query field"; the instruments and the log of upstream GETs are
  exactly what they were, so no upstream call was made and no counter or gauge touched.
\<close>

theorem missing_target_rejected:
  assumes "''target'' \<notin> fst ` set (query request)"
  shows "handle_export rt w request st =
           (Returned \<lparr>status = 400, body = ''Missing 'target' query field'',
                      content_type = ''text/plain''\<rparr>, st)"
proof -
  from assms have "map_of (query request) ''target'' = None"
    by (simp add: map_of_eq_None_iff)
  then show ?thesis by (simp add: handle_export_def)
qed

theorem missing_target_rejected_witness:
  "handle_export sample_runtime (sample_world (Inr line_up) 1 3)
     (sample_request [(''last'', ''60''), (''start'', ''5'')]) fresh_metrics =
     (Returned \<lparr>status = 400, body = ''Missing 'target' query field'',
                content_type = ''text/plain''\<rparr>, fresh_metrics)"
  using missing_target_rejected [of "sample_request [(''last'', ''60''), (''start'', ''5'')]"
      sample_runtime "sample_world (Inr line_up) 1 3" fresh_metrics]
  by (simp add: sample_request_def)

section \<open>Rendering a record\<close>



text \<open>
  C6. A record whose \<open>values\<close> and \<open>timestamps\<close> are lists of any two lengths is
  rendered without an exception: the lines are the positional pairs up to the shorter
  list, as many as the minimum of the two lengths, and the loop goes on to the next line.
\<close>

theorem zip_truncates:
  assumes "map_of rec ''metric'' = Some (JObj m)"
      and "map_of m ''__name__'' = Some name"
      and "map_of rec ''values'' = Some (JArr vs)"
      and "map_of rec ''timestamps'' = Some (JArr ts)"
      and "loads rt line = Inr (JObj rec)"
      and "rest = filter (\<lambda>kv. fst kv \<noteq> ''__name__'') m"
  shows "render_record rt (JObj rec) = Inr (concat (sample_lines rt name rest vs ts))
       \<and> length (sample_lines rt name rest vs ts) = min (length vs) (length ts)
       \<and> sample_lines rt name rest vs ts =
           map (\<lambda>i. sample_line rt name rest (vs ! i) (ts ! i))
             [0..<min (length vs) (length ts)]
       \<and> export_lines rt b (line # lines) =
           export_lines rt (b @ concat (sample_lines rt name rest vs ts)) lines"
proof -
  have r: "render_record rt (JObj rec) = Inr (concat (sample_lines rt name rest vs ts))"
    using assms by (simp add: render_record_def py_getitem_def py_pop_def py_iter_def)
  have n: "length (sample_lines rt name rest vs ts) = min (length vs) (length ts)"
    by (simp add: sample_lines_def)
  have p: "sample_lines rt name rest vs ts =
           map (\<lambda>i. sample_line rt name rest (vs ! i) (ts ! i))
             [0..<min (length vs) (length ts)]"
    by (rule nth_equalityI) (simp_all add: sample_lines_def)
  have "export_lines rt b (line # lines) =
           export_lines rt (b @ concat (sample_lines rt name rest vs ts)) lines"
    using assms(5) r by simp
  with r n p show ?thesis by blast
qed

theorem zip_truncates_witness:
  "loads sample_runtime line_uneven = Inr record_uneven
   \<and> render_record sample_runtime record_uneven = Inr (''up{} 1 100'' @ [CHR 0x0A])
   \<and> export_lines sample_runtime [] [line_uneven, line_uneven] =
       Inr (''up{} 1 100'' @ [CHR 0x0A] @ ''up{} 1 100'' @ [CHR 0x0A])"
proof -
  have l: "loads sample_runtime line_uneven = Inr record_uneven"
    by (simp add: sample_runtime_def sample_loads_def line_uneven_def line_up_def
        line_no_metric_def)
  have s: "concat (sample_lines sample_runtime (JStr ''up'') [] [JInt 1, JInt 2, JInt 3] [JInt 100])
             = ''up{} 1 100'' @ [CHR 0x0A]"
    by (simp add: sample_lines_def sample_line_def py_str_def str_int_def)
  note z = zip_truncates [where rt = sample_runtime and line = line_uneven
      and name = "JStr ''up''" and m = "[(''__name__'', JStr ''up'')]"
      and vs = "[JInt 1, JInt 2, JInt 3]" and ts = "[JInt 100]" and rest = "[]"
      and rec = "[(''metric'', JObj [(''__name__'', JStr ''up'')]),
           (''values'', JArr [JInt 1, JInt 2, JInt 3]),
           (''timestamps'', JArr [JInt 100])]", unfolded s, folded record_uneven_def, OF _ _ _ _ l]
  have r: "render_record sample_runtime record_uneven = Inr (''up{} 1 100'' @ [CHR 0x0A])"
    using z [of "[]" "[]"] by simp
  have "export_lines sample_runtime [] [line_uneven, line_uneven] =
          export_lines sample_runtime (''up{} 1 100'' @ [CHR 0x0A]) [line_uneven]"
    using z [of "[]" "[line_uneven]"] by simp
  also have "\<dots> = export_lines sample_runtime (''up{} 1 100'' @ [CHR 0x0A] @ ''up{} 1 100'' @ [CHR 0x0A]) []"
    using z [of "''up{} 1 100'' @ [CHR 0x0A]" "[]"] by simp
  finally show ?thesis using l r by simp
qed

section \<open>Failed exports\<close>

text \<open>
  C1. A line that parses to a record lacking \<open>metric\<close>, \<open>values\<close>, \<open>timestamps\<close>
  or the \<open>__name__\<close> label (the lines before it converted): the subscription or the
  \<open>pop\<close> raises KeyError, the \<open>except\<close> clause does not name that class, and the
  exception leaves the handler. No response is returned and the failure counter is not
  incremented: the instruments change only by the logged upstream GET. The line
  \<open>{"values":[1],"timestamps":[100]}\<close> is such a line.
\<close>

theorem missing_field_escapes:
  assumes "map_of (query request) ''target'' = Some target"
      and "make_url rt (time_query w) (query request) = Inr url"
      and "http_get w target (headers request) url = Inr text"
      and "splitlines text = pre @ line # post"
      and "export_lines rt [] pre = Inr b"
      and "loads rt line = Inr (JObj rec)"
      and "missing = ''metric'' \<and> ''metric'' \<notin> fst ` set rec
         \<or> missing = ''values'' \<and> ''metric'' \<in> fst ` set rec \<and> ''values'' \<notin> fst ` set rec
         \<or> missing = ''timestamps'' \<and> ''metric'' \<in> fst ` set rec \<and> ''values'' \<in> fst ` set rec
             \<and> ''timestamps'' \<notin> fst ` set rec
         \<or> missing = ''__name__'' \<and> ''values'' \<in> fst ` set rec \<and> ''timestamps'' \<in> fst ` set rec
             \<and> (\<exists>m. map_of rec ''metric'' = Some (JObj m) \<and> ''__name__'' \<notin> fst ` set m)"
  shows "handle_export rt w request st =
           (Raised (KeyError missing),
            st\<lparr>upstream_gets := upstream_gets st @ [(target, url)]\<rparr>)"
proof -
  have "export_lines rt b (line # post) = Inl (KeyError missing)"
    using assms(6) render_record_missing [OF assms(7), of rt] by simp
  with assms(3,4,5) have "try_block rt w target (headers request) url = Inl (KeyError missing)"
    by (simp add: try_block_def export_lines_append)
  with assms(1,2) show ?thesis by (simp add: handle_export_def)
qed

theorem missing_metric_escapes:
  "handle_export sample_runtime (sample_world (Inr line_no_metric) 1 3)
     (sample_request [(''target'', ''http://vm:8428'')]) fresh_metrics =
     (Raised (KeyError ''metric''),
      fresh_metrics\<lparr>upstream_gets :=
        [(''http://vm:8428'', ''/api/v1/export?match[]='' @ default_match)]\<rparr>)
   \<and> EXPORT_FAILS (snd (handle_export sample_runtime (sample_world (Inr line_no_metric) 1 3)
       (sample_request [(''target'', ''http://vm:8428'')]) fresh_metrics)) ''http://vm:8428'' = 0"
proof -
  let ?w = "sample_world (Inr line_no_metric) 1 3"
  let ?req = "sample_request [(''target'', ''http://vm:8428'')]"
  let ?url = "''/api/v1/export?match[]='' @ default_match"
  have t: "map_of (query ?req) ''target'' = Some ''http://vm:8428''"
    by (simp add: sample_request_def)
  have u: "make_url sample_runtime (time_query ?w) (query ?req) = Inr ?url"
    by (simp add: make_url_def sample_request_def)
  have g: "http_get ?w ''http://vm:8428'' (headers ?req) ?url = Inr line_no_metric"
    by (simp add: sample_world_def)
  have s: "splitlines line_no_metric = [] @ line_no_metric # []"
    by (simp add: splitlines_def line_no_metric_def is_break_def)
  have l: "loads sample_runtime line_no_metric =
             Inr (JObj [(''values'', JArr [JInt 1]), (''timestamps'', JArr [JInt 100])])"
    by (simp add: sample_runtime_def sample_loads_def line_up_def line_no_metric_def
        record_no_metric_def)
  have e: "export_lines sample_runtime [] [] = Inr []" by simp
  have "handle_export sample_runtime ?w ?req fresh_metrics =
     (Raised (KeyError ''metric''),
      fresh_metrics\<lparr>upstream_gets := upstream_gets fresh_metrics @ [(''http://vm:8428'', ?url)]\<rparr>)"
    by (rule missing_field_escapes [OF t u g s e l], rule disjI1) simp
  then show ?thesis by (simp add: fresh_metrics_def)
qed



section \<open>Successful exports\<close>

text \<open>
  C3 (amended). A request answered 200: the upstream body was fetched, the export
  counter of the target is one higher, the sample counter is higher by the number of
  lines \<open>splitlines\<close> gives for the body, the failure counter is unchanged, and the
  duration gauge holds the second clock reading minus the first, which is non-negative
  when the clock did not go back between the two readings.
\<close>

theorem successful_export_counts:
  assumes "map_of (query request) ''target'' = Some target"
      and "handle_export rt w request st = (Returned r, st')"
      and "status r = 200"
  shows "\<exists>url text.
           make_url rt (time_query w) (query request) = Inr url
         \<and> http_get w target (headers request) url = Inr text
         \<and> EXPORT_COUNT st' = (EXPORT_COUNT st)(target := EXPORT_COUNT st target + 1)
         \<and> EXPORT_LINES st' =
             (EXPORT_LINES st)(target := EXPORT_LINES st target + length (splitlines text))
         \<and> EXPORT_FAILS st' = EXPORT_FAILS st
         \<and> DURATION_METRIC st' = (DURATION_METRIC st)(target \<mapsto> time_end w - time_start w)
         \<and> (time_start w \<le> time_end w \<longrightarrow> (\<exists>d. DURATION_METRIC st' target = Some d \<and> 0 \<le> d))"
  using assms
  by (auto simp: handle_export_def try_block_def export_failed_def Let_def
      split: sum.splits exn.splits)

theorem successful_export_counts_witness:
  "EXPORT_COUNT (snd (handle_export sample_runtime
       (sample_world (Inr (line_up @ [CHR 0x0A] @ line_up @ [CHR 0x0A])) 1 3)
       (sample_request [(''target'', ''http://vm:8428'')]) fresh_metrics)) ''http://vm:8428'' = 1
   \<and> EXPORT_LINES (snd (handle_export sample_runtime
       (sample_world (Inr (line_up @ [CHR 0x0A] @ line_up @ [CHR 0x0A])) 1 3)
       (sample_request [(''target'', ''http://vm:8428'')]) fresh_metrics)) ''http://vm:8428'' = 2
   \<and> DURATION_METRIC (snd (handle_export sample_runtime
       (sample_world (Inr (line_up @ [CHR 0x0A] @ line_up @ [CHR 0x0A])) 1 3)
       (sample_request [(''target'', ''http://vm:8428'')]) fresh_metrics)) ''http://vm:8428'' = Some 2"
proof -
  let ?w = "sample_world (Inr (line_up @ [CHR 0x0A] @ line_up @ [CHR 0x0A])) 1 3"
  let ?req = "sample_request [(''target'', ''http://vm:8428'')]"
  let ?out = "''up{job=\"x\"} 1 100'' @ [CHR 0x0A] @ ''up{job=\"x\"} 0 200'' @ [CHR 0x0A]"
  have t: "map_of (query ?req) ''target'' = Some ''http://vm:8428''"
    by (simp add: sample_request_def)
  have r: "fst (handle_export sample_runtime ?w ?req fresh_metrics) =
             Returned \<lparr>status = 200, body = ?out @ ?out, content_type = ''text/plain''\<rparr>"
    by (simp add: handle_export_def sample_request_def make_url_def try_block_def
        sample_world_def splitlines_def line_up_def is_break_def sample_runtime_def
        sample_loads_def record_up_def render_record_def
        py_getitem_def py_pop_def py_iter_def sample_lines_def sample_line_def label_pair_def
        py_str_def str_int_def)
  have h: "handle_export sample_runtime ?w ?req fresh_metrics =
             (Returned \<lparr>status = 200, body = ?out @ ?out, content_type = ''text/plain''\<rparr>,
              snd (handle_export sample_runtime ?w ?req fresh_metrics))"
    using r by (metis prod.collapse)
  from successful_export_counts [OF t h] show ?thesis
    by (auto simp: sample_world_def fresh_metrics_def splitlines_def line_up_def is_break_def)
qed

text \<open>
  \<open>time()\<close> is the wall clock. Set back between the two readings (2, then 1), it makes
  a successful export record a duration of -1.
\<close>

theorem negative_duration_counterexample:
  "fst (handle_export sample_runtime (sample_world (Inr line_up) 2 1)
       (sample_request [(''target'', ''http://vm:8428'')]) fresh_metrics) =
     Returned \<lparr>status = 200,
       body = ''up{job=\"x\"} 1 100'' @ [CHR 0x0A] @ ''up{job=\"x\"} 0 200'' @ [CHR 0x0A],
       content_type = ''text/plain''\<rparr>
   \<and> DURATION_METRIC (snd (handle_export sample_runtime (sample_world (Inr line_up) 2 1)
       (sample_request [(''target'', ''http://vm:8428'')]) fresh_metrics)) ''http://vm:8428''
     = Some (- 1)"
  by (simp add: handle_export_def sample_request_def make_url_def try_block_def
      sample_world_def splitlines_def line_up_def is_break_def sample_runtime_def
      sample_loads_def record_up_def render_record_def
      py_getitem_def py_pop_def py_iter_def sample_lines_def sample_line_def label_pair_def
      py_str_def str_int_def fresh_metrics_def)

section \<open>The built query\<close>

text \<open>
  C9. Whenever \<open>make_url\<close> builds a query, it is \<open>/api/v1/export?\<close>, then the
  \<open>start=\<close> segment, then the \<open>end=\<close> segment, then \<open>match[]=\<close> and the selector,
  in this order. The \<open>start=\<close> segment holds the caller's \<open>start\<close> when \<open>last\<close> is
  absent, and the string of \<open>time() - float(last)\<close> otherwise; the \<open>end=\<close> segment
  holds the caller's \<open>end\<close>; an absent or empty value leaves its segment out. Without
  a \<open>match[]\<close> parameter the selector is the text \<open>{__name__!=''}\<close> (its last three
  characters are two apostrophes and a brace); with one, it is the value of the first
  \<open>match[]\<close> pair of the query, unchanged.
\<close>

theorem match_selector_last:
  assumes "make_url rt now q = Inr url"
  shows "\<exists>start_seg end_seg sel.
           url = ''/api/v1/export?'' @ start_seg @ end_seg @ ''match[]='' @ sel
         \<and> (''last'' \<notin> fst ` set q \<longrightarrow>
              start_seg = (case map_of q ''start'' of
                             None \<Rightarrow> []
                           | Some s \<Rightarrow> if s = [] then [] else ''start='' @ s @ ''&''))
         \<and> (\<forall>L. map_of q ''last'' = Some L \<longrightarrow>
              (\<exists>x. py_float rt L = Inr x
                 \<and> start_seg = (if float_str rt (now - x) = [] then []
                                else ''start='' @ float_str rt (now - x) @ ''&'')))
         \<and> end_seg = (case map_of q ''end'' of
                         None \<Rightarrow> []
                       | Some e \<Rightarrow> if e = [] then [] else ''end='' @ e @ ''&'')
         \<and> (''match[]'' \<notin> fst ` set q \<longrightarrow> sel = ''{__name__!='' @ [CHR 0x27, CHR 0x27] @ ''}'')
         \<and> (\<forall>pre m post. q = pre @ (''match[]'', m) # post \<and> ''match[]'' \<notin> fst ` set pre
                \<longrightarrow> sel = m)"
proof -
  define sel where "sel = (case map_of q ''match[]'' of None \<Rightarrow> default_match | Some m \<Rightarrow> m)"
  define end_seg where "end_seg = add_param [] ''end'' (map_of q ''end'')"
  have sel_default: "''match[]'' \<notin> fst ` set q \<longrightarrow> sel = ''{__name__!='' @ [CHR 0x27, CHR 0x27] @ ''}''"
    by (simp add: sel_def default_match_def map_of_eq_None_iff [symmetric])
  have sel_first: "\<forall>pre m post. q = pre @ (''match[]'', m) # post \<and> ''match[]'' \<notin> fst ` set pre
                \<longrightarrow> sel = m"
  proof (intro allI impI)
    fix pre m post
    assume a: "q = pre @ (''match[]'', m) # post \<and> ''match[]'' \<notin> fst ` set pre"
    then have "map_of q ''match[]'' = Some m"
      using map_of_first_pair [of "''match[]''" pre m post] by blast
    then show "sel = m" by (simp add: sel_def)
  qed
  have e: "end_seg = (case map_of q ''end'' of
                         None \<Rightarrow> []
                       | Some e \<Rightarrow> if e = [] then [] else ''end='' @ e @ ''&'')"
    by (cases "map_of q ''end''") (simp_all add: end_seg_def)
  show ?thesis
  proof (cases "map_of q ''last''")
    case None
    define start_seg where "start_seg = add_param [] ''start'' (map_of q ''start'')"
    have u: "url = ''/api/v1/export?'' @ start_seg @ end_seg @ ''match[]='' @ sel"
      using make_url_no_last [OF None, of rt now] assms
      unfolding sel_def end_seg_def start_seg_def
      by (simp del: add_param.simps)
    have s: "start_seg = (case map_of q ''start'' of
                             None \<Rightarrow> []
                           | Some s \<Rightarrow> if s = [] then [] else ''start='' @ s @ ''&'')"
      by (cases "map_of q ''start''") (simp_all add: start_seg_def)
    from u s e sel_default sel_first None show ?thesis
      by (intro exI [of _ start_seg] exI [of _ end_seg] exI [of _ sel]) simp
  next
    case (Some L)
    show ?thesis
    proof (cases "py_float rt L")
      case (Inl msg)
      from make_url_last_bad [OF Some Inl, of now] assms show ?thesis by simp
    next
      case (Inr x)
      define start_seg where "start_seg = add_param [] ''start'' (Some (float_str rt (now - x)))"
      have u: "url = ''/api/v1/export?'' @ start_seg @ end_seg @ ''match[]='' @ sel"
        using make_url_last_ok [OF Some Inr, of now] assms
        unfolding sel_def end_seg_def start_seg_def
        by (simp del: add_param.simps)
      have s: "start_seg = (if float_str rt (now - x) = [] then []
                                else ''start='' @ float_str rt (now - x) @ ''&'')"
        unfolding start_seg_def by simp
      from Some have l: "''last'' \<in> fst ` set q"
        using map_of_eq_None_iff [of q "''last''"] by auto
      from u s e sel_default sel_first Some Inr l show ?thesis
        by (intro exI [of _ start_seg] exI [of _ end_seg] exI [of _ sel]) simp
    qed
  qed
qed

theorem match_selector_last_witness:
  "make_url sample_runtime 0 [(''start'', ''5''), (''match[]'', ''up''), (''end'', ''9''), (''match[]'', ''down'')]
     = Inr ''/api/v1/export?start=5&end=9&match[]=up''
   \<and> make_url sample_runtime 1000 [(''end'', ''9''), (''last'', ''60''), (''start'', ''5'')]
     = Inr (''/api/v1/export?start=940.0&end=9&match[]={__name__!='' @ [CHR 0x27, CHR 0x27] @ ''}'')
   \<and> (\<exists>start_seg end_seg sel.
           ''/api/v1/export?start=5&end=9&match[]=up'' =
             ''/api/v1/export?'' @ start_seg @ end_seg @ ''match[]='' @ sel
         \<and> start_seg = ''start=5&'' \<and> end_seg = ''end=9&'' \<and> sel = ''up'')"
proof -
  let ?q = "[(''start'', ''5''), (''match[]'', ''up''), (''end'', ''9''), (''match[]'', ''down'')]"
  have h: "make_url sample_runtime 0 ?q = Inr ''/api/v1/export?start=5&end=9&match[]=up''"
    by (simp add: make_url_def)
  have g: "make_url sample_runtime 1000 [(''end'', ''9''), (''last'', ''60''), (''start'', ''5'')]
     = Inr (''/api/v1/export?start=940.0&end=9&match[]={__name__!='' @ [CHR 0x27, CHR 0x27] @ ''}'')"
    by (simp add: make_url_def default_match_def sample_runtime_def sample_float_def
        sample_float_str_def digits_value_def str_int_def)
  have d: "?q = [(''start'', ''5'')] @ (''match[]'', ''up'') # [(''end'', ''9''), (''match[]'', ''down'')]
           \<and> ''match[]'' \<notin> fst ` set [(''start'', ''5'')]"
    by simp
  from match_selector_last [OF h] obtain start_seg end_seg sel where
    u: "''/api/v1/export?start=5&end=9&match[]=up'' =
          ''/api/v1/export?'' @ start_seg @ end_seg @ ''match[]='' @ sel"
    and s: "''last'' \<notin> fst ` set ?q \<longrightarrow>
              start_seg = (case map_of ?q ''start'' of
                             None \<Rightarrow> []
                           | Some s \<Rightarrow> if s = [] then [] else ''start='' @ s @ ''&'')"
    and e: "end_seg = (case map_of ?q ''end'' of
                         None \<Rightarrow> []
                       | Some e \<Rightarrow> if e = [] then [] else ''end='' @ e @ ''&'')"
    and m: "\<forall>pre m post. ?q = pre @ (''match[]'', m) # post \<and> ''match[]'' \<notin> fst ` set pre
                \<longrightarrow> sel = m"
    by blast
  from s have s': "start_seg = ''start=5&''" by simp
  from e have e': "end_seg = ''end=9&''" by simp
  from m d have m': "sel = ''up''" by blast
  from h g u s' e' m' show ?thesis by blast
qed

text \<open>
  C10. Without \<open>last\<close>, a \<open>start\<close> or an \<open>end\<close> whose (first) value is the empty
  string leaves no segment in the query: the result is the one for the same query with
  that parameter removed.
\<close>

theorem empty_value_is_omitted:
  assumes "''last'' \<notin> fst ` set q"
      and "k = ''start'' \<or> k = ''end''"
      and "map_of q k = Some []"
  shows "make_url rt now q = make_url rt now (filter (\<lambda>kv. fst kv \<noteq> k) q)
       \<and> (\<exists>sel. make_url rt now q =
             Inr (''/api/v1/export?''
                  @ (if k = ''start'' then add_param [] ''end'' (map_of q ''end'')
                     else add_param [] ''start'' (map_of q ''start''))
                  @ ''match[]='' @ sel))"
proof -
  let ?q' = "filter (\<lambda>kv. fst kv \<noteq> k) q"
  from assms(1) have l: "map_of q ''last'' = None"
    by (simp add: map_of_eq_None_iff)
  from assms(2) l have l': "map_of ?q' ''last'' = None"
    by (auto simp: map_of_remove_key)
  from assms(2,3) have "make_url rt now q = make_url rt now ?q'"
    unfolding make_url_no_last [OF l] make_url_no_last [OF l']
    by (auto simp: map_of_remove_key)
  moreover from assms(2,3) have "\<exists>sel. make_url rt now q =
             Inr (''/api/v1/export?''
                  @ (if k = ''start'' then add_param [] ''end'' (map_of q ''end'')
                     else add_param [] ''start'' (map_of q ''start''))
                  @ ''match[]='' @ sel)"
    unfolding make_url_no_last [OF l] by auto
  ultimately show ?thesis by blast
qed

theorem empty_value_is_omitted_witness:
  "make_url sample_runtime 0 [(''start'', ''''), (''end'', ''9''), (''start'', ''5'')] =
     make_url sample_runtime 0 [(''end'', ''9'')]
   \<and> make_url sample_runtime 0 [(''start'', ''''), (''end'', ''9''), (''start'', ''5'')] =
     Inr (''/api/v1/export?end=9&match[]='' @ default_match)"
  using empty_value_is_omitted [of "[(''start'', ''''), (''end'', ''9''), (''start'', ''5'')]"
      "''start''" sample_runtime 0]
  by (simp add: make_url_def)

section \<open>The start of the time window\<close>

text \<open>
  C5 (amended). With \<open>last=L\<close>, \<open>L\<close> a string \<open>float\<close> accepts, the query begins
  with \<open>start=\<close> and the string of \<open>time() - float(L)\<close> (never empty in Python), and
  what follows is the query built without \<open>last\<close> and \<open>start\<close>: a \<open>start\<close> of the
  caller changes nothing. Without \<open>last\<close>, a non-empty \<open>start\<close> of the caller (the
  first, if several) is the \<open>start=\<close> segment; a \<open>start\<close> that is absent or empty
  leaves no \<open>start=\<close> segment: \<open>end=\<close> or \<open>match[]=\<close> follows the question mark.
\<close>

theorem start_resolution:
  "(map_of q ''last'' = Some L \<and> py_float rt L = Inr x \<and> float_str rt (now - x) \<noteq> [] \<longrightarrow>
      (\<exists>tail. make_url rt now q =
                Inr (''/api/v1/export?start='' @ float_str rt (now - x) @ ''&'' @ tail)
            \<and> make_url rt now (filter (\<lambda>kv. fst kv \<noteq> ''last'' \<and> fst kv \<noteq> ''start'') q) =
                Inr (''/api/v1/export?'' @ tail))
      \<and> make_url rt now (filter (\<lambda>kv. fst kv \<noteq> ''start'') q) = make_url rt now q)
   \<and> (''last'' \<notin> fst ` set q \<and> map_of q ''start'' = Some s \<and> s \<noteq> [] \<longrightarrow>
      (\<exists>tail. make_url rt now q = Inr (''/api/v1/export?start='' @ s @ ''&'' @ tail)
            \<and> make_url rt now (filter (\<lambda>kv. fst kv \<noteq> ''start'') q) =
                Inr (''/api/v1/export?'' @ tail)))
   \<and> (''last'' \<notin> fst ` set q \<and> (''start'' \<notin> fst ` set q \<or> map_of q ''start'' = Some []) \<longrightarrow>
      make_url rt now q = make_url rt now (filter (\<lambda>kv. fst kv \<noteq> ''start'') q)
      \<and> (\<exists>end_seg sel. make_url rt now q = Inr (''/api/v1/export?'' @ end_seg @ ''match[]='' @ sel)
            \<and> (end_seg = [] \<or> (\<exists>e. end_seg = ''end='' @ e @ ''&''))))"
proof (intro conjI impI)
  let ?tail = "add_param [] ''end'' (map_of q ''end'') @ ''match[]=''
          @ (case map_of q ''match[]'' of None \<Rightarrow> default_match | Some m \<Rightarrow> m)"
  let ?no_start = "filter (\<lambda>kv. fst kv \<noteq> ''start'') q"
  let ?bare = "filter (\<lambda>kv. fst kv \<noteq> ''last'' \<and> fst kv \<noteq> ''start'') q"
  {
    assume a: "map_of q ''last'' = Some L \<and> py_float rt L = Inr x \<and> float_str rt (now - x) \<noteq> []"
    then have u: "make_url rt now q =
        Inr (''/api/v1/export?start='' @ float_str rt (now - x) @ ''&'' @ ?tail)"
      using make_url_last_ok [of q L rt x now] by simp
    have "map_of ?bare ''last'' = None"
      using map_of_filter_keys [of "\<lambda>k. k \<noteq> ''last'' \<and> k \<noteq> ''start''" q "''last''"] by simp
    from make_url_no_last [OF this, of rt now]
    have b: "make_url rt now ?bare = Inr (''/api/v1/export?'' @ ?tail)"
      using map_of_filter_keys [of "\<lambda>k. k \<noteq> ''last'' \<and> k \<noteq> ''start''" q] by simp
    from u b show "\<exists>tail. make_url rt now q =
                Inr (''/api/v1/export?start='' @ float_str rt (now - x) @ ''&'' @ tail)
            \<and> make_url rt now ?bare = Inr (''/api/v1/export?'' @ tail)"
      by blast
    from a have "map_of ?no_start ''last'' = Some L"
      by (simp add: map_of_remove_key)
    from make_url_last_ok [OF this, of rt x now] a u
    show "make_url rt now ?no_start = make_url rt now q"
      by (simp add: map_of_remove_key)
  }
  {
    assume a: "''last'' \<notin> fst ` set q \<and> map_of q ''start'' = Some s \<and> s \<noteq> []"
    then have l: "map_of q ''last'' = None" by (simp add: map_of_eq_None_iff)
    then have l': "map_of ?no_start ''last'' = None" by (simp add: map_of_remove_key)
    from a have u: "make_url rt now q = Inr (''/api/v1/export?start='' @ s @ ''&'' @ ?tail)"
      unfolding make_url_no_last [OF l] by simp
    have b: "make_url rt now ?no_start = Inr (''/api/v1/export?'' @ ?tail)"
      unfolding make_url_no_last [OF l'] by (simp add: map_of_remove_key)
    from u b show "\<exists>tail. make_url rt now q = Inr (''/api/v1/export?start='' @ s @ ''&'' @ tail)
            \<and> make_url rt now ?no_start = Inr (''/api/v1/export?'' @ tail)"
      by blast
  }
  {
    assume a: "''last'' \<notin> fst ` set q \<and> (''start'' \<notin> fst ` set q \<or> map_of q ''start'' = Some [])"
    then have l: "map_of q ''last'' = None" by (simp add: map_of_eq_None_iff)
    then have l': "map_of ?no_start ''last'' = None" by (simp add: map_of_remove_key)
    from a have st: "add_param [] ''start'' (map_of q ''start'') = []"
      by (auto simp: map_of_eq_None_iff [symmetric])
    have u: "make_url rt now q = Inr (''/api/v1/export?'' @ ?tail)"
      unfolding make_url_no_last [OF l] st by simp
    have b: "make_url rt now ?no_start = Inr (''/api/v1/export?'' @ ?tail)"
      unfolding make_url_no_last [OF l'] by (simp add: map_of_remove_key)
    from u b show "make_url rt now q = make_url rt now ?no_start" by simp
    have "add_param [] ''end'' (map_of q ''end'') = []
          \<or> (\<exists>e. add_param [] ''end'' (map_of q ''end'') = ''end='' @ e @ ''&'')"
      using add_param_shape [of "''end''" "map_of q ''end''"] by simp
    with u show "\<exists>end_seg sel. make_url rt now q = Inr (''/api/v1/export?'' @ end_seg @ ''match[]='' @ sel)
            \<and> (end_seg = [] \<or> (\<exists>e. end_seg = ''end='' @ e @ ''&''))"
      by (intro exI [of _ "add_param [] ''end'' (map_of q ''end'')"]
          exI [of _ "case map_of q ''match[]'' of None \<Rightarrow> default_match | Some m \<Rightarrow> m"]) simp
  }
qed

theorem start_resolution_witness:
  "make_url sample_runtime 1000 [(''last'', ''60''), (''start'', ''5'')] =
     Inr (''/api/v1/export?start=940.0&match[]='' @ default_match)
   \<and> make_url sample_runtime 1000 [(''start'', ''5'')] =
     Inr (''/api/v1/export?start=5&match[]='' @ default_match)
   \<and> make_url sample_runtime 1000 [(''end'', ''9'')] =
     Inr (''/api/v1/export?end=9&match[]='' @ default_match)"
proof -
  have f: "py_float sample_runtime ''60'' = Inr 60"
    by (simp add: sample_runtime_def sample_float_def digits_value_def)
  have g: "float_str sample_runtime (1000 - 60) = ''940.0''"
    by (simp add: sample_runtime_def sample_float_str_def str_int_def)
  have a: "make_url sample_runtime 1000 [(''last'', ''60''), (''start'', ''5'')] =
     Inr (''/api/v1/export?start=940.0&match[]='' @ default_match)"
    using start_resolution [of "[(''last'', ''60''), (''start'', ''5'')]" "''60''"
        sample_runtime 60 1000 "''5''"] f g
    by (auto simp: make_url_def)
  have b: "make_url sample_runtime 1000 [(''start'', ''5'')] =
     Inr (''/api/v1/export?start=5&match[]='' @ default_match)"
    using start_resolution [of "[(''start'', ''5'')]" "''60''" sample_runtime 60 1000 "''5''"]
    by (auto simp: make_url_def)
  have c: "make_url sample_runtime 1000 [(''end'', ''9'')] =
     Inr (''/api/v1/export?end=9&match[]='' @ default_match)"
    using start_resolution [of "[(''end'', ''9'')]" "''60''" sample_runtime 60 1000 "''5''"]
    by (auto simp: make_url_def)
  from a b c show ?thesis by blast
qed

text \<open>
  A \<open>start\<close> that is present and empty is not used: the query has no \<open>start=\<close>
  segment.
\<close>

theorem empty_start_counterexample:
  "map_of [(''start'', '''')] ''start'' = Some ''''
   \<and> make_url sample_runtime 1000 [(''start'', '''')] =
       Inr (''/api/v1/export?match[]='' @ default_match)"
  by (simp add: make_url_def)

section \<open>Where the query translator raises\<close>




end
